theory Spec2Isabelle
  imports Main
begin

section \<open>Change-aware polling caches of the Goodreads and Spotify workers\<close>

text \<open>
  The repository holds three Cloudflare Workers modules, each exporting an on-demand
  handler \<open>fetch\<close> and a timer handler \<open>scheduled\<close>:
  \<^item> \<^verbatim>\<open>goodreads-worker.js\<close>, the reading-list worker (prefix \<open>goodreads_\<close>);
  \<^item> \<^verbatim>\<open>unnamed/part_001\<close>, a second reading-list worker without the helper
    \<^verbatim>\<open>hasBookChanged\<close> and without stale serving (prefix \<open>part001_\<close>);
  \<^item> \<^verbatim>\<open>unnamed/part_002\<close>, the playback worker (prefix \<open>spotify_\<close>).

  Every handler is modelled as a pure function of its environment: the outcome of the
  KV read, the readings of \<^verbatim>\<open>Date.now()\<close>, the outcome of each upstream call and the
  outcome of the KV write. A handler returns what it did: the upstream calls it made, the
  KV puts it issued, and its response or completion. An \<^verbatim>\<open>await\<close> that rejects and a
  \<^verbatim>\<open>throw\<close> are the value \<open>Throws\<close>; each \<^verbatim>\<open>try\<close> block is a function of its
  own and each \<^verbatim>\<open>catch\<close> a function applied to it.

  The handlers take the outcome of the upstream as it reaches them: the feed outcome is
  the value of \<^verbatim>\<open>parseGoodreadsRSS(await fetchGoodreadsRSS(userId))\<close>, the playback
  outcomes are the values of \<^verbatim>\<open>getAccessToken\<close>, \<^verbatim>\<open>getNowPlaying\<close> and
  \<^verbatim>\<open>getRecentlyPlayed\<close>. For the reading-list workers \<open>goodreads_feed\<close> and
  \<open>part001_feed\<close> give the feed outcome of an HTTP exchange; the regular expressions
  that cut the body into items and fields, and the JSON decoding of the playback payloads,
  are not modelled.
\<close>

subsection \<open>Values, effects and environments\<close>

datatype 'a outcome = Throws string | Returns 'a

datatype call = Feed | Token | NowPlaying | RecentlyPlayed

text \<open>A KV put: the value stored under the worker's single key and the
  \<^verbatim>\<open>expirationTtl\<close> option in seconds, when one is passed.\<close>

datatype 'e put = Put 'e "nat option"

datatype 'a response = Preflight | Ok "'a option" | ServerError string

record 'a entry =
  data :: "'a option"
  timestamp :: int

record 'e effects =
  calls :: "call list"
  puts :: "'e put list"

record ('a, 'e) attempt = "'e effects" +
  outcome :: "'a outcome"

record ('a, 'e) reply = "'e effects" +
  response :: "'a response"

record 'e completion = "'e effects" +
  raised :: "string option"

text \<open>
  \<open>clock1\<close> is the reading of \<^verbatim>\<open>Date.now()\<close> after the KV read, \<open>clock2\<close> the
  reading after the upstream calls. Two readings with no \<^verbatim>\<open>await\<close> between them are
  one reading: the Workers runtime advances the clock only on I/O.
\<close>

record 'e kv_env =
  kv_get :: "'e option outcome"
  clock1 :: int
  clock2 :: int
  kv_put :: "unit outcome"

text \<open>\<^verbatim>\<open>cached?.data || null\<close>\<close>

definition entry_data :: "('a, 'm) entry_scheme option \<Rightarrow> 'a option" where
  "entry_data cached = (case cached of None \<Rightarrow> None | Some c \<Rightarrow> data c)"

text \<open>
  A thrown value is an \<^verbatim>\<open>Error\<close> object, \<open>Throws m\<close> the one with message \<open>m\<close>:
  every \<^verbatim>\<open>throw\<close> of the three files is a \<^verbatim>\<open>throw new Error(...)\<close> or a rethrow, and
  \<^verbatim>\<open>fetch\<close>, the body readers of a response and the KV binding reject with
  \<^verbatim>\<open>Error\<close> objects. A rejection with \<^verbatim>\<open>null\<close> or \<^verbatim>\<open>undefined\<close> is outside this
  type; on one, a \<^verbatim>\<open>catch\<close> that reads \<^verbatim>\<open>error.message\<close> (those of the three on-demand
  handlers and the outer one of the playback timer handler) would itself throw.

  The \<^verbatim>\<open>catch\<close> of an on-demand handler answers status 500 with the message. The
  \<^verbatim>\<open>catch\<close> of a timer handler logs the error and falls off the end of the handler:
  \<open>raised\<close> is what leaves the invocation. The playback timer handler logs
  \<^verbatim>\<open>event.cron\<close> and \<^verbatim>\<open>event.scheduledTime\<close> before its \<^verbatim>\<open>try\<close>; the event is the
  object the runtime passes, and the log line is not among the effects recorded here.
\<close>

definition catch_500 :: "('a option, 'e) attempt \<Rightarrow> ('a, 'e) reply" where
  "catch_500 a =
     \<lparr>calls = calls a, puts = puts a,
      response = (case outcome a of Returns body \<Rightarrow> Ok body | Throws m \<Rightarrow> ServerError m)\<rparr>"

definition catch_log :: "(unit, 'e) attempt \<Rightarrow> 'e completion" where
  "catch_log a = \<lparr>calls = calls a, puts = puts a, raised = None\<rparr>"

definition preflight :: "('a, 'e) reply" where
  "preflight = \<lparr>calls = [], puts = [], response = Preflight\<rparr>"

subsection \<open>The reading-list worker (goodreads-worker.js)\<close>

record book =
  title :: string
  author :: string
  cover :: string
  link :: string

record books =
  current :: "book option"
  previous :: "book option"

record gr_env = "(books entry) kv_env" +
  feed :: "books outcome"

definition CACHE_TTL_MS :: int where
  "CACHE_TTL_MS = 3600000"

text \<open>
  The exchange with the feed URL: \<^verbatim>\<open>fetch\<close> or the reading of the body rejects, or a
  response arrives with a status and a body. A body is the list of its
  \<^verbatim>\<open><item>...</item>\<close> blocks in order, each as the book that \<^verbatim>\<open>getField\<close> reads
  from it; a body with no such block, as an error page, is \<open>[]\<close>.
\<close>

datatype http_exchange = Rejects string | Responds nat "book list"

text \<open>\<^verbatim>\<open>response.ok\<close>\<close>

definition response_ok :: "nat \<Rightarrow> bool" where
  "response_ok status = (200 \<le> status \<and> status \<le> 299)"

text \<open>The decimal digits of a number, as a template literal prints it.\<close>

fun decimal :: "nat \<Rightarrow> string" where
  "decimal n =
     (if n < 10 then [''0123456789'' ! n]
      else decimal (n div 10) @ [''0123456789'' ! (n mod 10)])"

declare decimal.simps [simp del]

text \<open>\<^verbatim>\<open>fetchGoodreadsRSS(userId)\<close>: the body of the response, or
  \<^verbatim>\<open>throw new Error(`Goodreads RSS returned ${response.status}`)\<close> when the status is
  not ok.\<close>

definition fetchGoodreadsRSS :: "http_exchange \<Rightarrow> book list outcome" where
  "fetchGoodreadsRSS x =
     (case x of
        Rejects m \<Rightarrow> Throws m
      | Responds status items \<Rightarrow>
          if \<not> response_ok status then Throws (''Goodreads RSS returned '' @ decimal status)
          else Returns items)"

text \<open>\<^verbatim>\<open>parseGoodreadsRSS(xml)\<close>:
  \<^verbatim>\<open>{ current: books[0] || null, previous: books[1] || null }\<close>, and both
  \<^verbatim>\<open>null\<close> when there is no item.\<close>

definition parseGoodreadsRSS :: "book list \<Rightarrow> books" where
  "parseGoodreadsRSS items =
     (case items of
        [] \<Rightarrow> \<lparr>current = None, previous = None\<rparr>
      | [b] \<Rightarrow> \<lparr>current = Some b, previous = None\<rparr>
      | b # b' # rest \<Rightarrow> \<lparr>current = Some b, previous = Some b'\<rparr>)"

definition goodreads_feed :: "http_exchange \<Rightarrow> books outcome" where
  "goodreads_feed x =
     (case fetchGoodreadsRSS x of
        Throws m \<Rightarrow> Throws m
      | Returns xml \<Rightarrow> Returns (parseGoodreadsRSS xml))"

text \<open>\<^verbatim>\<open>hasBookChanged(newBooks, existingBooks)\<close>; \<open>existingBooks\<close> is \<open>None\<close> for
  \<^verbatim>\<open>null\<close>. The parser always returns an object, so \<open>newBooks\<close> is not optional.\<close>

definition hasBookChanged :: "books \<Rightarrow> books option \<Rightarrow> bool" where
  "hasBookChanged newBooks existingBooks =
     (case (case existingBooks of None \<Rightarrow> None | Some e \<Rightarrow> current e) of
        None \<Rightarrow> True
      | Some ec \<Rightarrow>
          (case current newBooks of
             None \<Rightarrow> False
           | Some nc \<Rightarrow> title nc \<noteq> title ec \<or> author nc \<noteq> author ec))"

text \<open>\<^verbatim>\<open>cached?.timestamp && (Date.now() - cached.timestamp < CACHE_TTL_MS)\<close>:
  a timestamp of \<open>0\<close> is falsy.\<close>

definition cacheValid :: "books entry option \<Rightarrow> int \<Rightarrow> bool" where
  "cacheValid cached now =
     (case cached of
        None \<Rightarrow> False
      | Some c \<Rightarrow> timestamp c \<noteq> 0 \<and> now - timestamp c < CACHE_TTL_MS)"

definition goodreads_fetch_try :: "gr_env \<Rightarrow> (books option, books entry) attempt" where
  "goodreads_fetch_try env =
     (case kv_get env of
        Throws m \<Rightarrow> \<lparr>calls = [], puts = [], outcome = Throws m\<rparr>
      | Returns cached \<Rightarrow>
          if cacheValid cached (clock1 env)
          then \<lparr>calls = [], puts = [], outcome = Returns (entry_data cached)\<rparr>
          else
            (case feed env of
               Throws m \<Rightarrow>
                 (case entry_data cached of
                    Some d \<Rightarrow> \<lparr>calls = [Feed], puts = [], outcome = Returns (Some d)\<rparr>
                  | None \<Rightarrow> \<lparr>calls = [Feed], puts = [], outcome = Throws m\<rparr>)
             | Returns bks \<Rightarrow>
                 (let existingBooks = entry_data cached;
                      bookChanged = hasBookChanged bks existingBooks;
                      cacheData =
                        (if bookChanged then \<lparr>data = Some bks, timestamp = clock2 env\<rparr>
                         else if cached = None then \<lparr>data = Some bks, timestamp = clock2 env\<rparr>
                         else \<lparr>data = existingBooks, timestamp = clock2 env\<rparr>)
                  in (case kv_put env of
                        Throws m \<Rightarrow>
                          \<lparr>calls = [Feed], puts = [Put cacheData None], outcome = Throws m\<rparr>
                      | Returns _ \<Rightarrow>
                          \<lparr>calls = [Feed], puts = [Put cacheData None],
                           outcome = Returns (Some bks)\<rparr>))))"

definition goodreads_fetch :: "string \<Rightarrow> gr_env \<Rightarrow> (books, books entry) reply" where
  "goodreads_fetch method env =
     (if method = ''OPTIONS'' then preflight else catch_500 (goodreads_fetch_try env))"

definition goodreads_scheduled_try :: "gr_env \<Rightarrow> (unit, books entry) attempt" where
  "goodreads_scheduled_try env =
     (case kv_get env of
        Throws m \<Rightarrow> \<lparr>calls = [], puts = [], outcome = Throws m\<rparr>
      | Returns existingCache \<Rightarrow>
          (let existingBooks = entry_data existingCache in
           case feed env of
             Throws m \<Rightarrow> \<lparr>calls = [Feed], puts = [], outcome = Returns ()\<rparr>
           | Returns bks \<Rightarrow>
               (let bookChanged = hasBookChanged bks existingBooks in
                if \<not> bookChanged \<and> existingBooks \<noteq> None
                then \<lparr>calls = [Feed], puts = [], outcome = Returns ()\<rparr>
                else
                  (let cacheData = \<lparr>data = Some bks, timestamp = clock2 env\<rparr> in
                   case kv_put env of
                     Throws m \<Rightarrow>
                       \<lparr>calls = [Feed], puts = [Put cacheData None], outcome = Throws m\<rparr>
                   | Returns _ \<Rightarrow>
                       \<lparr>calls = [Feed], puts = [Put cacheData None], outcome = Returns ()\<rparr>))))"

definition goodreads_scheduled :: "gr_env \<Rightarrow> books entry completion" where
  "goodreads_scheduled env = catch_log (goodreads_scheduled_try env)"

subsection \<open>The second reading-list worker (unnamed/part_001)\<close>

text \<open>
  Its parser returns \<^verbatim>\<open>{ current }\<close> only; the model reuses \<open>books\<close> and never reads
  \<open>previous\<close>. The upstream call is a bare \<^verbatim>\<open>fetch(rssUrl)\<close> with no status check,
  inside the handler's only \<^verbatim>\<open>try\<close>. The comparison is written inline in both handlers:
  \<^verbatim>\<open>!existingBooks?.current || books.current?.title !== existingBooks?.current?.title
  || books.current?.author !== existingBooks?.current?.author\<close>, where a missing
  \<open>books.current\<close> gives \<^verbatim>\<open>undefined\<close>, which differs from every string.
\<close>

text \<open>\<^verbatim>\<open>parseGoodreadsRSS(xml)\<close> of part_001: \<^verbatim>\<open>{ current: books[0] || null }\<close>, and
  \<^verbatim>\<open>{ current: null }\<close> when there is no item. The feed outcome of an exchange is
  \<^verbatim>\<open>parseGoodreadsRSS(await (await fetch(rssUrl)).text())\<close>: the status of the response
  is not read.\<close>

definition part001_parseGoodreadsRSS :: "book list \<Rightarrow> books" where
  "part001_parseGoodreadsRSS items =
     (case items of
        [] \<Rightarrow> \<lparr>current = None, previous = None\<rparr>
      | b # rest \<Rightarrow> \<lparr>current = Some b, previous = None\<rparr>)"

definition part001_feed :: "http_exchange \<Rightarrow> books outcome" where
  "part001_feed x =
     (case x of
        Rejects m \<Rightarrow> Throws m
      | Responds status items \<Rightarrow> Returns (part001_parseGoodreadsRSS items))"

definition part001_bookChanged :: "books \<Rightarrow> books option \<Rightarrow> bool" where
  "part001_bookChanged bks existingBooks =
     (case (case existingBooks of None \<Rightarrow> None | Some e \<Rightarrow> current e) of
        None \<Rightarrow> True
      | Some ec \<Rightarrow>
          map_option title (current bks) \<noteq> Some (title ec) \<or>
          map_option author (current bks) \<noteq> Some (author ec))"

definition part001_fetch_try :: "gr_env \<Rightarrow> (books option, books entry) attempt" where
  "part001_fetch_try env =
     (case kv_get env of
        Throws m \<Rightarrow> \<lparr>calls = [], puts = [], outcome = Throws m\<rparr>
      | Returns cached \<Rightarrow>
          if (case cached of
                None \<Rightarrow> False
              | Some c \<Rightarrow> timestamp c \<noteq> 0 \<and> clock1 env - timestamp c < 3600000)
          then \<lparr>calls = [], puts = [], outcome = Returns (entry_data cached)\<rparr>
          else
            (case feed env of
               Throws m \<Rightarrow> \<lparr>calls = [Feed], puts = [], outcome = Throws m\<rparr>
             | Returns bks \<Rightarrow>
                 (let existingBooks = entry_data cached;
                      bookChanged = part001_bookChanged bks existingBooks
                  in if bookChanged \<or> existingBooks = None
                     then
                       (let cacheData = \<lparr>data = Some bks, timestamp = clock2 env\<rparr> in
                        case kv_put env of
                          Throws m \<Rightarrow>
                            \<lparr>calls = [Feed], puts = [Put cacheData None], outcome = Throws m\<rparr>
                        | Returns _ \<Rightarrow>
                            \<lparr>calls = [Feed], puts = [Put cacheData None],
                             outcome = Returns (Some bks)\<rparr>)
                     else \<lparr>calls = [Feed], puts = [], outcome = Returns (Some bks)\<rparr>)))"

definition part001_fetch :: "string \<Rightarrow> gr_env \<Rightarrow> (books, books entry) reply" where
  "part001_fetch method env =
     (if method = ''OPTIONS'' then preflight else catch_500 (part001_fetch_try env))"

definition part001_scheduled_try :: "gr_env \<Rightarrow> (unit, books entry) attempt" where
  "part001_scheduled_try env =
     (case kv_get env of
        Throws m \<Rightarrow> \<lparr>calls = [], puts = [], outcome = Throws m\<rparr>
      | Returns existingCache \<Rightarrow>
          (let existingBooks = entry_data existingCache in
           case feed env of
             Throws m \<Rightarrow> \<lparr>calls = [Feed], puts = [], outcome = Throws m\<rparr>
           | Returns bks \<Rightarrow>
               (let bookChanged = part001_bookChanged bks existingBooks in
                if \<not> bookChanged \<and> existingBooks \<noteq> None
                then \<lparr>calls = [Feed], puts = [], outcome = Returns ()\<rparr>
                else
                  (let cacheData = \<lparr>data = Some bks, timestamp = clock2 env\<rparr> in
                   case kv_put env of
                     Throws m \<Rightarrow>
                       \<lparr>calls = [Feed], puts = [Put cacheData None], outcome = Throws m\<rparr>
                   | Returns _ \<Rightarrow>
                       \<lparr>calls = [Feed], puts = [Put cacheData None], outcome = Returns ()\<rparr>))))"

definition part001_scheduled :: "gr_env \<Rightarrow> books entry completion" where
  "part001_scheduled env = catch_log (part001_scheduled_try env)"

subsection \<open>The playback worker (unnamed/part_002)\<close>

text \<open>
  \<open>trackId\<close> is \<^verbatim>\<open>item.id\<close> of the Spotify payload: a string, \<^verbatim>\<open>null\<close> (a local
  file has no id) or absent. The fields \<^verbatim>\<open>title\<close> and \<^verbatim>\<open>type\<close> of the source
  are \<open>trackTitle\<close> and \<open>trackType\<close> here, since \<open>title\<close> is a field of \<open>book\<close>.
\<close>

datatype js_string = Undefined | Null | Str string

fun truthy :: "js_string \<Rightarrow> bool" where
  "truthy (Str s) = (s \<noteq> [])"
| "truthy Undefined = False"
| "truthy Null = False"

record track =
  isPlaying :: bool
  trackTitle :: string
  artist :: string
  album :: string
  albumArt :: string
  songUrl :: string
  trackId :: js_string
  trackType :: string

record sp_entry = "track entry" +
  lastRun :: int

record sp_env = "sp_entry kv_env" +
  token :: "unit outcome"
  nowPlaying :: "track option outcome"
  recentlyPlayed :: "track option outcome"

definition KV_TTL :: nat where
  "KV_TTL = 300"

definition SCHEDULE_INTERVAL :: int where
  "SCHEDULE_INTERVAL = 120000"

definition FETCH_CACHE_TTL :: int where
  "FETCH_CACHE_TTL = 30000"

text \<open>\<^verbatim>\<open>tracksEqual(track1, track2)\<close>. Both objects are built by the same object
  literals (the stored one read back from its own JSON), so two
  \<^verbatim>\<open>JSON.stringify\<close> results are the same string exactly when the two records are
  equal.\<close>

fun tracksEqual :: "track option \<Rightarrow> track option \<Rightarrow> bool" where
  "tracksEqual None None = True"
| "tracksEqual None (Some track2) = False"
| "tracksEqual (Some track1) None = False"
| "tracksEqual (Some track1) (Some track2) =
     (if truthy (trackId track1) \<and> truthy (trackId track2)
      then trackId track1 = trackId track2 \<and> isPlaying track1 = isPlaying track2
      else track1 = track2)"

definition spotify_fetch_try :: "sp_env \<Rightarrow> (track option, sp_entry) attempt" where
  "spotify_fetch_try env =
     (case kv_get env of
        Throws m \<Rightarrow> \<lparr>calls = [], puts = [], outcome = Throws m\<rparr>
      | Returns cached \<Rightarrow>
          if (case cached of
                None \<Rightarrow> False
              | Some c \<Rightarrow> timestamp c \<noteq> 0 \<and> clock1 env - timestamp c < FETCH_CACHE_TTL)
          then \<lparr>calls = [], puts = [], outcome = Returns (entry_data cached)\<rparr>
          else
            (case token env of
               Throws m \<Rightarrow> \<lparr>calls = [Token], puts = [], outcome = Throws m\<rparr>
             | Returns _ \<Rightarrow>
                 (case nowPlaying env of
                    Throws m \<Rightarrow> \<lparr>calls = [Token, NowPlaying], puts = [], outcome = Throws m\<rparr>
                  | Returns np \<Rightarrow>
                      (case (if np = None then recentlyPlayed env else Returns np) of
                         Throws m \<Rightarrow>
                           \<lparr>calls = [Token, NowPlaying, RecentlyPlayed], puts = [],
                            outcome = Throws m\<rparr>
                       | Returns trk \<Rightarrow>
                           (let cs = (if np = None then [Token, NowPlaying, RecentlyPlayed]
                                      else [Token, NowPlaying]);
                                existingTrack = entry_data cached
                            in if \<not> tracksEqual trk existingTrack
                               then
                                 (let cacheData =
                                        \<lparr>data = trk, timestamp = clock2 env,
                                         lastRun = clock2 env\<rparr>
                                  in case kv_put env of
                                       Throws m \<Rightarrow>
                                         \<lparr>calls = cs, puts = [Put cacheData (Some KV_TTL)],
                                          outcome = Throws m\<rparr>
                                     | Returns _ \<Rightarrow>
                                         \<lparr>calls = cs, puts = [Put cacheData (Some KV_TTL)],
                                          outcome = Returns trk\<rparr>)
                               else \<lparr>calls = cs, puts = [], outcome = Returns trk\<rparr>)))))"

definition spotify_fetch :: "string \<Rightarrow> sp_env \<Rightarrow> (track, sp_entry) reply" where
  "spotify_fetch method env =
     (if method = ''OPTIONS'' then preflight else catch_500 (spotify_fetch_try env))"

text \<open>\<^verbatim>\<open>if (lastRun) { if (now - lastRun < SCHEDULE_INTERVAL) return; }\<close>: a
  \<open>lastRun\<close> of \<open>0\<close> is falsy, as is that of a missing entry.\<close>

definition too_soon :: "sp_entry option \<Rightarrow> int \<Rightarrow> bool" where
  "too_soon existingData now =
     (case existingData of
        None \<Rightarrow> False
      | Some c \<Rightarrow> lastRun c \<noteq> 0 \<and> now - lastRun c < SCHEDULE_INTERVAL)"

text \<open>When neither query reports a track, the source returns without a put from both of
  its branches (\<^verbatim>\<open>else if (existingTrack)\<close> and \<^verbatim>\<open>else\<close>): the one branch
  \<open>newTrack = None\<close> below. A failure of \<^verbatim>\<open>getAccessToken\<close> reaches the outer
  \<^verbatim>\<open>catch\<close>, a failure of either query the inner one, which returns.\<close>

definition spotify_scheduled_try :: "sp_env \<Rightarrow> (unit, sp_entry) attempt" where
  "spotify_scheduled_try env =
     (case kv_get env of
        Throws m \<Rightarrow> \<lparr>calls = [], puts = [], outcome = Throws m\<rparr>
      | Returns existingData \<Rightarrow>
          (let now = clock1 env in
           if too_soon existingData now
           then \<lparr>calls = [], puts = [], outcome = Returns ()\<rparr>
           else
             (let existingTrack = entry_data existingData in
              case token env of
                Throws m \<Rightarrow> \<lparr>calls = [Token], puts = [], outcome = Throws m\<rparr>
              | Returns _ \<Rightarrow>
                  (case nowPlaying env of
                     Throws m \<Rightarrow>
                       \<lparr>calls = [Token, NowPlaying], puts = [], outcome = Returns ()\<rparr>
                   | Returns np \<Rightarrow>
                       (case (if np = None then recentlyPlayed env else Returns np) of
                          Throws m \<Rightarrow>
                            \<lparr>calls = [Token, NowPlaying, RecentlyPlayed], puts = [],
                             outcome = Returns ()\<rparr>
                        | Returns newTrack \<Rightarrow>
                            (let cs = (if np = None then [Token, NowPlaying, RecentlyPlayed]
                                       else [Token, NowPlaying])
                             in if newTrack = None
                                then \<lparr>calls = cs, puts = [], outcome = Returns ()\<rparr>
                                else if tracksEqual newTrack existingTrack
                                then \<lparr>calls = cs, puts = [], outcome = Returns ()\<rparr>
                                else
                                  (let cacheData =
                                         \<lparr>data = newTrack, timestamp = now, lastRun = now\<rparr>
                                   in case kv_put env of
                                        Throws m \<Rightarrow>
                                          \<lparr>calls = cs, puts = [Put cacheData (Some KV_TTL)],
                                           outcome = Throws m\<rparr>
                                      | Returns _ \<Rightarrow>
                                          \<lparr>calls = cs, puts = [Put cacheData (Some KV_TTL)],
                                           outcome = Returns ()\<rparr>)))))))"

definition spotify_scheduled :: "sp_env \<Rightarrow> sp_entry completion" where
  "spotify_scheduled env = catch_log (spotify_scheduled_try env)"

subsection \<open>Sequences of polls over the store\<close>

text \<open>
  Each worker keeps one key in its KV namespace: a cell that the last put wins. A poll
  of a sequence reads the cell, and its put (that succeeds) replaces the content. The
  cell does not expire entries: a sequence is one within the life of an entry (the puts
  of the playback worker carry \<^verbatim>\<open>expirationTtl: 300\<close>, those of the reading-list
  workers none). \<open>Request\<close> is an on-demand GET, \<open>Tick\<close> a timer invocation.
\<close>

datatype trigger = Request | Tick

definition store_after :: "'e option \<Rightarrow> 'e put list \<Rightarrow> 'e option" where
  "store_after store ps = fold (\<lambda>p _. case p of Put e _ \<Rightarrow> Some e) ps store"

definition goodreads_poll :: "books entry option \<Rightarrow> trigger \<times> gr_env \<Rightarrow> books entry effects" where
  "goodreads_poll store p =
     (case p of (trg, env) \<Rightarrow>
        (let env' = env\<lparr>kv_get := Returns store, kv_put := Returns ()\<rparr> in
         case trg of
           Request \<Rightarrow>
             (let r = goodreads_fetch ''GET'' env' in \<lparr>calls = calls r, puts = puts r\<rparr>)
         | Tick \<Rightarrow>
             (let r = goodreads_scheduled env' in \<lparr>calls = calls r, puts = puts r\<rparr>)))"

definition spotify_poll :: "sp_entry option \<Rightarrow> trigger \<times> sp_env \<Rightarrow> sp_entry effects" where
  "spotify_poll store p =
     (case p of (trg, env) \<Rightarrow>
        (let env' = env\<lparr>kv_get := Returns store, kv_put := Returns ()\<rparr> in
         case trg of
           Request \<Rightarrow>
             (let r = spotify_fetch ''GET'' env' in \<lparr>calls = calls r, puts = puts r\<rparr>)
         | Tick \<Rightarrow>
             (let r = spotify_scheduled env' in \<lparr>calls = calls r, puts = puts r\<rparr>)))"

fun run_polls :: "('e option \<Rightarrow> 'p \<Rightarrow> 'e effects) \<Rightarrow> 'e option \<Rightarrow> 'p list \<Rightarrow> 'e effects" where
  "run_polls poll store [] = \<lparr>calls = [], puts = []\<rparr>"
| "run_polls poll store (p # ps) =
     (let r = poll store p;
          rest = run_polls poll (store_after store (puts r)) ps
      in \<lparr>calls = calls r @ calls rest, puts = puts r @ puts rest\<rparr>)"

text \<open>The upstream of the playback worker yields the record \<open>trk\<close>: the token is
  granted, and either the currently-playing query answers \<open>trk\<close>, or it answers
  nothing and the recently-played query answers \<open>trk\<close> (possibly nothing).\<close>

definition yields :: "sp_env \<Rightarrow> track option \<Rightarrow> bool" where
  "yields env trk =
     (token env = Returns () \<and>
      (case nowPlaying env of
         Throws m \<Rightarrow> False
       | Returns None \<Rightarrow> recentlyPlayed env = Returns trk
       | Returns (Some t) \<Rightarrow> trk = Some t))"

subsection \<open>Example inputs\<close>

definition dune :: book where
  "dune = \<lparr>title = ''Dune'', author = ''Herbert'', cover = ''cover-1.jpg'', link = ''book/1''\<rparr>"

definition dune_new_cover :: book where
  "dune_new_cover =
     \<lparr>title = ''Dune'', author = ''Herbert'', cover = ''cover-2.jpg'', link = ''book/1''\<rparr>"

definition shelf :: "book option \<Rightarrow> books" where
  "shelf b = \<lparr>current = b, previous = None\<rparr>"

definition song :: track where
  "song = \<lparr>isPlaying = True, trackTitle = ''Song'', artist = ''Band'', album = ''Album'',
            albumArt = ''art-1.jpg'', songUrl = ''track/T1'', trackId = Str ''T1'',
            trackType = ''track''\<rparr>"

definition local_file :: track where
  "local_file = \<lparr>isPlaying = True, trackTitle = ''Demo'', artist = ''Unknown Artist'',
                  album = ''Unknown Album'', albumArt = ''art-1.jpg'', songUrl = [],
                  trackId = Null, trackType = ''track''\<rparr>"

text \<open>An invocation at clock reading \<open>t\<close> whose upstream calls take 5 ms, over a
  store that answers.\<close>

definition goodreads_env :: "books entry option \<Rightarrow> int \<Rightarrow> books outcome \<Rightarrow> gr_env" where
  "goodreads_env cached t f =
     \<lparr>kv_get = Returns cached, clock1 = t, clock2 = t + 5, kv_put = Returns (), feed = f\<rparr>"

definition spotify_env ::
  "sp_entry option \<Rightarrow> int \<Rightarrow> unit outcome \<Rightarrow> track option outcome \<Rightarrow> track option outcome
   \<Rightarrow> sp_env" where
  "spotify_env cached t tok np rp =
     \<lparr>kv_get = Returns cached, clock1 = t, clock2 = t + 5, kv_put = Returns (),
      token = tok, nowPlaying = np, recentlyPlayed = rp\<rparr>"

section \<open>Properties\<close>

subsection \<open>Unfolding the handlers\<close>

lemmas goodreads_fetch_unfold =
  goodreads_fetch_def goodreads_fetch_try_def catch_500_def cacheValid_def entry_data_def
  hasBookChanged_def CACHE_TTL_MS_def Let_def

lemmas part001_fetch_unfold =
  part001_fetch_def part001_fetch_try_def catch_500_def entry_data_def
  part001_bookChanged_def Let_def

lemmas spotify_fetch_unfold =
  spotify_fetch_def spotify_fetch_try_def catch_500_def entry_data_def FETCH_CACHE_TTL_def
  KV_TTL_def Let_def

lemmas goodreads_scheduled_unfold =
  goodreads_scheduled_def goodreads_scheduled_try_def catch_log_def entry_data_def
  hasBookChanged_def Let_def

lemmas part001_scheduled_unfold =
  part001_scheduled_def part001_scheduled_try_def catch_log_def entry_data_def
  part001_bookChanged_def Let_def

lemmas spotify_scheduled_unfold =
  spotify_scheduled_def spotify_scheduled_try_def catch_log_def entry_data_def too_soon_def
  SCHEDULE_INTERVAL_def KV_TTL_def Let_def

lemmas examples_unfold =
  goodreads_env_def spotify_env_def shelf_def dune_def dune_new_cover_def song_def

subsection \<open>The store cell and the equality predicates\<close>

lemma store_after_Nil: "store_after store [] = store"
  by (simp add: store_after_def)

lemma store_after_single: "store_after store [Put e ttl] = Some e"
  by (simp add: store_after_def)

lemma tracksEqual_refl: "tracksEqual t t"
  by (cases t) simp_all

lemma hasBookChanged_same: "current bks \<noteq> None \<Longrightarrow> \<not> hasBookChanged bks (Some bks)"
  by (auto simp: hasBookChanged_def split: option.splits)

lemma too_soon_tick_is_noop:
  assumes "kv_get tick = Returns (Some d)" "lastRun d \<noteq> 0" "clock1 tick - lastRun d < 120000"
  shows "spotify_scheduled tick = \<lparr>calls = [], puts = [], raised = None\<rparr>"
  using assms by (simp add: spotify_scheduled_unfold)

subsection \<open>A null fetch over a stored record\<close>

text \<open>
  Where the guard against an empty upstream answer exists. In goodreads-worker.js an empty
  feed over a stored book is no change: the on-demand handler puts the stored data back
  under a new timestamp, the timer handler puts nothing. In the playback worker the timer
  handler returns before any put when neither query reports a track.
\<close>

lemma goodreads_null_feed_keeps_stored_book:
  assumes "meth \<noteq> ''OPTIONS''" "kv_get env = Returns (Some c)" "feed env = Returns bks"
    and "current bks = None" "data c = Some old" "current old \<noteq> None"
  shows "\<forall>e ttl. Put e ttl \<in> set (puts (goodreads_fetch meth env)) \<longrightarrow> data e = Some old"
    and "puts (goodreads_scheduled env) = []"
  using assms
  by (auto simp: goodreads_fetch_unfold goodreads_scheduled_unfold preflight_def
      split: if_splits outcome.splits option.splits)

lemma spotify_tick_null_keeps_stored_track:
  "yields env None \<Longrightarrow> puts (spotify_scheduled env) = []"
  by (auto simp: yields_def spotify_scheduled_unfold split: outcome.splits option.splits)

text \<open>
  C1. For every poll, on-demand or by the timer, whose fetch succeeds with a null Record
  while the cache holds an entry with a non-null Record, the cache after the poll still
  reports the stored Record. The on-demand handler of the playback worker breaks this: a
  GET 99 s after the stored write, with a granted token, nothing playing and no recently
  played item, compares \<open>null\<close> with the stored track, finds them unequal and puts an
  entry whose data is \<open>null\<close>, which replaces the stored track. The on-demand handler of
  part_001 does the same with an empty feed: it puts \<^verbatim>\<open>{ current: null }\<close> over the
  stored book.
\<close>

theorem null_fetch_replaces_stored_record:
  "puts (spotify_fetch ''GET''
      (spotify_env (Some \<lparr>data = Some song, timestamp = 1000, lastRun = 1000\<rparr>) 100000
         (Returns ()) (Returns None) (Returns None)))
     = [Put \<lparr>data = None, timestamp = 100005, lastRun = 100005\<rparr> (Some 300)] \<and>
   store_after (Some \<lparr>data = Some song, timestamp = 1000, lastRun = 1000\<rparr>)
     (puts (spotify_fetch ''GET''
        (spotify_env (Some \<lparr>data = Some song, timestamp = 1000, lastRun = 1000\<rparr>) 100000
           (Returns ()) (Returns None) (Returns None))))
     = Some \<lparr>data = None, timestamp = 100005, lastRun = 100005\<rparr> \<and>
   puts (part001_fetch ''GET''
      (goodreads_env (Some \<lparr>data = Some (shelf (Some dune)), timestamp = 1000\<rparr>) 4000000
         (Returns (shelf None))))
     = [Put \<lparr>data = Some \<lparr>current = None, previous = None\<rparr>, timestamp = 4000005\<rparr> None]"
  by (simp add: spotify_fetch_unfold part001_fetch_unfold examples_unfold store_after_def)

subsection \<open>Sequences of polls that fetch one record\<close>

lemma spotify_poll_settled:
  assumes "yields (snd p) trk" "tracksEqual trk (entry_data store)"
  shows "puts (spotify_poll store p) = []"
proof (cases p)
  case (Pair trg env)
  show ?thesis
  proof (cases trg)
    case Request
    with Pair assms show ?thesis
      by (auto simp: spotify_poll_def yields_def spotify_fetch_def spotify_fetch_try_def
          catch_500_def Let_def split: outcome.splits option.splits)
  next
    case Tick
    with Pair assms show ?thesis
      by (auto simp: spotify_poll_def yields_def spotify_scheduled_def
          spotify_scheduled_try_def catch_log_def Let_def split: outcome.splits option.splits)
  qed
qed

lemma spotify_poll_puts:
  assumes "yields (snd p) trk"
  shows "puts (spotify_poll store p) = [] \<or>
         (\<exists>e ttl. puts (spotify_poll store p) = [Put e ttl] \<and> data e = trk)"
proof (cases p)
  case (Pair trg env)
  show ?thesis
  proof (cases trg)
    case Request
    with Pair assms show ?thesis
      by (auto simp: spotify_poll_def yields_def spotify_fetch_def spotify_fetch_try_def
          catch_500_def Let_def split: outcome.splits option.splits)
  next
    case Tick
    with Pair assms show ?thesis
      by (auto simp: spotify_poll_def yields_def spotify_scheduled_def
          spotify_scheduled_try_def catch_log_def Let_def split: outcome.splits option.splits)
  qed
qed

lemma spotify_run_settled:
  "\<forall>p\<in>set ps. yields (snd p) trk \<Longrightarrow> tracksEqual trk (entry_data store) \<Longrightarrow>
   puts (run_polls spotify_poll store ps) = []"
proof (induction ps)
  case Nil
  then show ?case by simp
next
  case (Cons p ps)
  have "puts (spotify_poll store p) = []"
    using spotify_poll_settled [of p trk store] Cons.prems by simp
  then show ?case using Cons by (simp add: Let_def store_after_Nil)
qed

lemma spotify_run_at_most_one:
  "\<forall>p\<in>set ps. yields (snd p) trk \<Longrightarrow> length (puts (run_polls spotify_poll store ps)) \<le> 1"
proof (induction ps arbitrary: store)
  case Nil
  then show ?case by simp
next
  case (Cons p ps)
  then have y: "yields (snd p) trk" and ys: "\<forall>q\<in>set ps. yields (snd q) trk"
    by simp_all
  from spotify_poll_puts [OF y, of store] show ?case
  proof
    assume "puts (spotify_poll store p) = []"
    then show ?thesis using Cons.IH [OF ys, of store]
      by (simp add: Let_def store_after_Nil)
  next
    assume "\<exists>e ttl. puts (spotify_poll store p) = [Put e ttl] \<and> data e = trk"
    then obtain e ttl where e: "puts (spotify_poll store p) = [Put e ttl]" "data e = trk"
      by blast
    then have "tracksEqual trk (entry_data (Some e))"
      by (simp add: entry_data_def tracksEqual_refl)
    from spotify_run_settled [OF ys this] e show ?thesis
      by (simp add: Let_def store_after_single)
  qed
qed

lemma goodreads_tick_settled:
  "feed env = Returns bks \<Longrightarrow> entry_data store \<noteq> None \<Longrightarrow>
   \<not> hasBookChanged bks (entry_data store) \<Longrightarrow>
   puts (goodreads_poll store (Tick, env)) = []"
  by (simp add: goodreads_poll_def goodreads_scheduled_def goodreads_scheduled_try_def
      catch_log_def Let_def)

lemma goodreads_tick_puts:
  "feed env = Returns bks \<Longrightarrow>
   puts (goodreads_poll store (Tick, env)) = [] \<or>
   puts (goodreads_poll store (Tick, env))
     = [Put \<lparr>data = Some bks, timestamp = clock2 env\<rparr> None]"
  by (simp add: goodreads_poll_def goodreads_scheduled_def goodreads_scheduled_try_def
      catch_log_def Let_def)

lemma goodreads_run_settled:
  "\<forall>p\<in>set ps. fst p = Tick \<and> feed (snd p) = Returns bks \<Longrightarrow> entry_data store \<noteq> None \<Longrightarrow>
   \<not> hasBookChanged bks (entry_data store) \<Longrightarrow>
   puts (run_polls goodreads_poll store ps) = []"
proof (induction ps)
  case Nil
  then show ?case by simp
next
  case (Cons p ps)
  obtain env where p: "p = (Tick, env)" "feed env = Returns bks"
    using Cons.prems(1) by (cases p) auto
  have "puts (goodreads_poll store p) = []"
    using goodreads_tick_settled [OF p(2) Cons.prems(2,3)] p(1) by simp
  then show ?case using Cons by (simp add: Let_def store_after_Nil)
qed

lemma goodreads_run_at_most_one:
  "\<forall>p\<in>set ps. fst p = Tick \<and> feed (snd p) = Returns bks \<Longrightarrow> current bks \<noteq> None \<Longrightarrow>
   length (puts (run_polls goodreads_poll store ps)) \<le> 1"
proof (induction ps arbitrary: store)
  case Nil
  then show ?case by simp
next
  case (Cons p ps)
  obtain env where p: "p = (Tick, env)" "feed env = Returns bks"
    using Cons.prems(1) by (cases p) auto
  have ys: "\<forall>q\<in>set ps. fst q = Tick \<and> feed (snd q) = Returns bks"
    using Cons.prems(1) by simp
  from goodreads_tick_puts [OF p(2), of store] show ?case
  proof
    assume "puts (goodreads_poll store (Tick, env)) = []"
    then show ?thesis using Cons.IH [OF ys Cons.prems(2), of store] p(1)
      by (simp add: Let_def store_after_Nil)
  next
    let ?e = "\<lparr>data = Some bks, timestamp = clock2 env\<rparr>"
    assume e: "puts (goodreads_poll store (Tick, env)) = [Put ?e None]"
    have "entry_data (Some ?e) \<noteq> None" "\<not> hasBookChanged bks (entry_data (Some ?e))"
      using hasBookChanged_same [OF Cons.prems(2)] by (simp_all add: entry_data_def)
    from goodreads_run_settled [OF ys this] e p(1) show ?thesis
      by (simp add: Let_def store_after_single)
  qed
qed

lemma goodreads_request_always_puts:
  "meth \<noteq> ''OPTIONS'' \<Longrightarrow> kv_get env = Returns cached \<Longrightarrow>
   \<not> cacheValid cached (clock1 env) \<Longrightarrow> feed env = Returns bks \<Longrightarrow>
   length (puts (goodreads_fetch meth env)) = 1"
  by (simp add: goodreads_fetch_def goodreads_fetch_try_def catch_500_def Let_def
      split: outcome.splits)

text \<open>
  Three GETs of goodreads-worker.js, each more than an hour after the one before, all
  fetching the same book over a store that starts empty: the first put stores the book,
  the second and third put it again under a new timestamp.
\<close>

theorem identical_polls_three_puts_counterexample:
  "length (puts (run_polls goodreads_poll None
     [(Request, goodreads_env None 4000000 (Returns (shelf (Some dune)))),
      (Request, goodreads_env None 8000000 (Returns (shelf (Some dune)))),
      (Request, goodreads_env None 12000000 (Returns (shelf (Some dune))))])) = 3"
  by (simp add: goodreads_poll_def goodreads_fetch_unfold examples_unfold store_after_def)

text \<open>
  C2, as amended. For every sequence of polls that all fetch one Record, within the life
  of the stored entry, the store is written at most once when the polls are timer ticks
  of goodreads-worker.js fetching a non-null Record, and when they are polls of the
  playback worker, on-demand or by the timer, in any order. The on-demand handler of
  goodreads-worker.js puts exactly once on every request that is past the freshness
  window and whose fetch succeeds, whatever it fetched.
\<close>

theorem identical_polls_write_at_most_once:
  "((\<forall>p\<in>set ticks. fst p = Tick \<and> feed (snd p) = Returns bks) \<and> current bks \<noteq> None
      \<longrightarrow> length (puts (run_polls goodreads_poll gstore ticks)) \<le> 1) \<and>
   ((\<forall>p\<in>set polls. yields (snd p) trk)
      \<longrightarrow> length (puts (run_polls spotify_poll sstore polls)) \<le> 1) \<and>
   (meth \<noteq> ''OPTIONS'' \<and> kv_get env = Returns cached \<and>
    \<not> cacheValid cached (clock1 env) \<and> feed env = Returns fetched
      \<longrightarrow> length (puts (goodreads_fetch meth env)) = 1)"
  using goodreads_run_at_most_one [of ticks bks gstore]
    spotify_run_at_most_one [of polls trk sstore]
    goodreads_request_always_puts [of meth env cached fetched]
  by blast

theorem identical_polls_write_at_most_once_witness:
  "length (puts (run_polls goodreads_poll None
     [(Tick, goodreads_env None 1000 (Returns (shelf (Some dune)))),
      (Tick, goodreads_env None 1801000 (Returns (shelf (Some dune)))),
      (Tick, goodreads_env None 3601000 (Returns (shelf (Some dune))))])) \<le> 1 \<and>
   length (puts (run_polls spotify_poll None
     [(Request, spotify_env None 1000 (Returns ()) (Returns (Some song)) (Returns None)),
      (Tick, spotify_env None 121000 (Returns ()) (Returns (Some song)) (Returns None)),
      (Request, spotify_env None 200000 (Returns ()) (Returns (Some song)) (Returns None))]))
     \<le> 1 \<and>
   length (puts (goodreads_fetch ''GET''
     (goodreads_env (Some \<lparr>data = Some (shelf (Some dune)), timestamp = 1000\<rparr>) 4000000
        (Returns (shelf (Some dune)))))) = 1"
  using identical_polls_write_at_most_once
    [where ticks = "[(Tick, goodreads_env None 1000 (Returns (shelf (Some dune)))),
      (Tick, goodreads_env None 1801000 (Returns (shelf (Some dune)))),
      (Tick, goodreads_env None 3601000 (Returns (shelf (Some dune))))]"
     and bks = "shelf (Some dune)" and gstore = None
     and polls = "[(Request, spotify_env None 1000 (Returns ()) (Returns (Some song)) (Returns None)),
      (Tick, spotify_env None 121000 (Returns ()) (Returns (Some song)) (Returns None)),
      (Request, spotify_env None 200000 (Returns ()) (Returns (Some song)) (Returns None))]"
     and trk = "Some song" and sstore = None
     and meth = "''GET''"
     and env = "goodreads_env (Some \<lparr>data = Some (shelf (Some dune)), timestamp = 1000\<rparr>)
        4000000 (Returns (shelf (Some dune)))"
     and cached = "Some \<lparr>data = Some (shelf (Some dune)), timestamp = 1000\<rparr>"
     and fetched = "shelf (Some dune)"]
  by (simp add: yields_def cacheValid_def CACHE_TTL_MS_def examples_unfold)

subsection \<open>The timer's throttle\<close>

text \<open>
  Two ticks of the playback worker 10 s apart, the first 199 s after the stored
  \<open>lastRun\<close>, both fetching the stored track: each calls upstream, since a tick that
  finds the track unchanged puts nothing and so leaves \<open>lastRun\<close> where it was. Two
  ticks of goodreads-worker.js one minute apart, the first one second after the stored
  timestamp: each fetches the feed, since that handler has no throttle.
\<close>

theorem ticks_inside_one_window_counterexample:
  "calls (run_polls spotify_poll (Some \<lparr>data = Some song, timestamp = 1000, lastRun = 1000\<rparr>)
     [(Tick, spotify_env None 200000 (Returns ()) (Returns (Some song)) (Returns None)),
      (Tick, spotify_env None 210000 (Returns ()) (Returns (Some song)) (Returns None))])
     = [Token, NowPlaying, Token, NowPlaying] \<and>
   calls (run_polls goodreads_poll (Some \<lparr>data = Some (shelf (Some dune)), timestamp = 1000\<rparr>)
     [(Tick, goodreads_env None 2000 (Returns (shelf (Some dune)))),
      (Tick, goodreads_env None 62000 (Returns (shelf (Some dune))))])
     = [Feed, Feed]"
  by (simp add: spotify_poll_def goodreads_poll_def spotify_scheduled_unfold
      goodreads_scheduled_unfold examples_unfold store_after_def)

text \<open>
  C3, as amended. In the playback worker a timer tick that reads an entry with a non-zero
  \<open>lastRun\<close> and \<open>now - lastRun < 120000\<close> ms returns at once: no upstream call, no
  put. \<open>lastRun\<close> is stored only by a put: a tick past the interval that fetches a
  track equal to the stored one calls upstream and puts nothing, so the throttle bounds
  the fetches after a write, not the fetches per interval. The reading-list worker has no
  throttle: every tick whose cache read succeeds fetches the feed.
\<close>

theorem playback_tick_throttled_after_write:
  "(kv_get tick = Returns (Some d) \<and> lastRun d \<noteq> 0 \<and> clock1 tick - lastRun d < 120000
      \<longrightarrow> spotify_scheduled tick = \<lparr>calls = [], puts = [], raised = None\<rparr>) \<and>
   (kv_get late = Returns (Some d') \<and> \<not> too_soon (Some d') (clock1 late) \<and>
    yields late trk \<and> tracksEqual trk (data d')
      \<longrightarrow> Token \<in> set (calls (spotify_scheduled late)) \<and> puts (spotify_scheduled late) = []) \<and>
   (kv_get genv = Returns cached \<longrightarrow> calls (goodreads_scheduled genv) = [Feed])"
proof (intro conjI impI)
  show "spotify_scheduled tick = \<lparr>calls = [], puts = [], raised = None\<rparr>"
    if "kv_get tick = Returns (Some d) \<and> lastRun d \<noteq> 0 \<and> clock1 tick - lastRun d < 120000"
    using that too_soon_tick_is_noop [of tick d] by simp
  assume late: "kv_get late = Returns (Some d') \<and> \<not> too_soon (Some d') (clock1 late) \<and>
    yields late trk \<and> tracksEqual trk (data d')"
  then show "Token \<in> set (calls (spotify_scheduled late))"
    by (auto simp: yields_def spotify_scheduled_def spotify_scheduled_try_def catch_log_def
        entry_data_def Let_def split: outcome.splits option.splits)
  from late show "puts (spotify_scheduled late) = []"
    by (auto simp: yields_def spotify_scheduled_def spotify_scheduled_try_def catch_log_def
        entry_data_def Let_def split: outcome.splits option.splits)
next
  assume "kv_get genv = Returns cached"
  then show "calls (goodreads_scheduled genv) = [Feed]"
    by (simp add: goodreads_scheduled_unfold split: outcome.splits)
qed

theorem playback_tick_throttled_after_write_witness:
  "spotify_scheduled
     (spotify_env (Some \<lparr>data = Some song, timestamp = 1000, lastRun = 1000\<rparr>) 61000
        (Returns ()) (Returns (Some song)) (Returns None))
     = \<lparr>calls = [], puts = [], raised = None\<rparr> \<and>
   Token \<in> set (calls (spotify_scheduled
     (spotify_env (Some \<lparr>data = Some song, timestamp = 1000, lastRun = 1000\<rparr>) 200000
        (Returns ()) (Returns (Some song)) (Returns None)))) \<and>
   puts (spotify_scheduled
     (spotify_env (Some \<lparr>data = Some song, timestamp = 1000, lastRun = 1000\<rparr>) 200000
        (Returns ()) (Returns (Some song)) (Returns None))) = [] \<and>
   calls (goodreads_scheduled
     (goodreads_env (Some \<lparr>data = Some (shelf (Some dune)), timestamp = 1000\<rparr>) 2000
        (Returns (shelf (Some dune))))) = [Feed]"
  using playback_tick_throttled_after_write
    [where tick = "spotify_env (Some \<lparr>data = Some song, timestamp = 1000, lastRun = 1000\<rparr>)
        61000 (Returns ()) (Returns (Some song)) (Returns None)"
     and d = "\<lparr>data = Some song, timestamp = 1000, lastRun = 1000\<rparr>"
     and late = "spotify_env (Some \<lparr>data = Some song, timestamp = 1000, lastRun = 1000\<rparr>)
        200000 (Returns ()) (Returns (Some song)) (Returns None)"
     and d' = "\<lparr>data = Some song, timestamp = 1000, lastRun = 1000\<rparr>"
     and trk = "Some song"
     and genv = "goodreads_env (Some \<lparr>data = Some (shelf (Some dune)), timestamp = 1000\<rparr>)
        2000 (Returns (shelf (Some dune)))"
     and cached = "Some \<lparr>data = Some (shelf (Some dune)), timestamp = 1000\<rparr>"]
  by (simp add: yields_def too_soon_def SCHEDULE_INTERVAL_def examples_unfold)

subsection \<open>A failed fetch on the on-demand path\<close>

text \<open>Where stale serving exists: goodreads-worker.js answers the stored data when the
  feed fails and data is stored, and status 500 when none is; it puts nothing.\<close>

lemma goodreads_failure_serves_stale:
  assumes "meth \<noteq> ''OPTIONS''" "kv_get env = Returns cached"
    and "\<not> cacheValid cached (clock1 env)" "feed env = Throws m"
  shows "goodreads_fetch meth env =
     \<lparr>calls = [Feed], puts = [],
      response = (case entry_data cached of Some b \<Rightarrow> Ok (Some b) | None \<Rightarrow> ServerError m)\<rparr>"
  using assms
  by (simp add: goodreads_fetch_def goodreads_fetch_try_def catch_500_def
      split: option.splits)

text \<open>
  C4. For every on-demand request whose upstream fetch fails, the handler answers the
  stored Record as a success, with no put, when an entry exists, and an error when none
  does. The playback worker breaks this: its only \<^verbatim>\<open>catch\<close> answers status 500. A GET
  99 s after the stored write, with the token request refused, gets the error and not the
  stored track. The on-demand handler of part_001 does the same when the feed request
  throws.
\<close>

theorem failed_fetch_answers_500_over_stored_record:
  "spotify_fetch ''GET''
     (spotify_env (Some \<lparr>data = Some song, timestamp = 1000, lastRun = 1000\<rparr>) 100000
        (Throws ''Failed to get access token: 401'') (Returns None) (Returns None))
     = \<lparr>calls = [Token], puts = [],
        response = ServerError ''Failed to get access token: 401''\<rparr> \<and>
   part001_fetch ''GET''
     (goodreads_env (Some \<lparr>data = Some (shelf (Some dune)), timestamp = 1000\<rparr>) 4000000
        (Throws ''fetch failed''))
     = \<lparr>calls = [Feed], puts = [], response = ServerError ''fetch failed''\<rparr>"
  by (simp add: spotify_fetch_unfold part001_fetch_unfold examples_unfold)

subsection \<open>The equality predicates\<close>

text \<open>Two records of a local file, which has no track id, that differ in the album art
  only: the comparison falls back to the whole serialised records and finds them
  unequal.\<close>

theorem tracks_without_id_counterexample:
  "\<not> tracksEqual (Some local_file) (Some (local_file\<lparr>albumArt := ''art-2.jpg''\<rparr>))"
  by (simp add: local_file_def)

text \<open>
  C5, as amended. Two non-null Records of the reading-list kind are judged equal exactly
  when title and author are the same strings, by \<^verbatim>\<open>hasBookChanged\<close> and by the inline
  test of part_001. Two non-null Records of the playback kind that both have a non-empty
  track id are judged equal exactly when \<open>trackId\<close> and \<open>isPlaying\<close> agree; so a
  difference in display fields alone is no change for either kind. When a track id is
  missing or empty, \<^verbatim>\<open>tracksEqual\<close> compares the whole records, and any differing field
  makes them unequal.
\<close>

theorem equality_is_identity_key_match:
  "(current new = Some n \<and> current stored = Some e
      \<longrightarrow> (hasBookChanged new (Some stored) \<longleftrightarrow> \<not> (title n = title e \<and> author n = author e)) \<and>
          (part001_bookChanged new (Some stored)
             \<longleftrightarrow> \<not> (title n = title e \<and> author n = author e))) \<and>
   (truthy (trackId a) \<and> truthy (trackId b)
      \<longrightarrow> (tracksEqual (Some a) (Some b)
             \<longleftrightarrow> trackId a = trackId b \<and> isPlaying a = isPlaying b)) \<and>
   (\<not> (truthy (trackId u) \<and> truthy (trackId v))
      \<longrightarrow> (tracksEqual (Some u) (Some v) \<longleftrightarrow> u = v))"
  by (auto simp: hasBookChanged_def part001_bookChanged_def)

theorem equality_is_identity_key_match_witness:
  "\<not> hasBookChanged (shelf (Some dune_new_cover)) (Some (shelf (Some dune))) \<and>
   \<not> part001_bookChanged (shelf (Some dune_new_cover)) (Some (shelf (Some dune))) \<and>
   hasBookChanged (shelf (Some (dune\<lparr>title := ''dune''\<rparr>))) (Some (shelf (Some dune))) \<and>
   tracksEqual (Some (song\<lparr>albumArt := ''art-2.jpg''\<rparr>)) (Some song) \<and>
   tracksEqual (Some local_file) (Some local_file)"
  using equality_is_identity_key_match
    [where new = "shelf (Some dune_new_cover)" and stored = "shelf (Some dune)"
     and n = dune_new_cover and e = dune
     and a = "song\<lparr>albumArt := ''art-2.jpg''\<rparr>" and b = song
     and u = local_file and v = local_file]
  by (simp add: examples_unfold local_file_def hasBookChanged_def)

subsection \<open>A cosmetic change\<close>

text \<open>Dune is stored; a GET of goodreads-worker.js more than an hour later fetches Dune
  with a new cover: the handler puts the stored data back under a new timestamp.\<close>

theorem cosmetic_change_still_puts_counterexample:
  "puts (goodreads_fetch ''GET''
     (goodreads_env (Some \<lparr>data = Some (shelf (Some dune)), timestamp = 1000\<rparr>) 4000000
        (Returns (shelf (Some dune_new_cover)))))
     = [Put \<lparr>data = Some (shelf (Some dune)), timestamp = 4000005\<rparr> None]"
  by (simp add: goodreads_fetch_unfold examples_unfold)

text \<open>
  C6, as amended. When the stored entry holds a Record and an on-demand poll past the
  freshness window fetches a Record with the same identity fields and a changed display
  field, the stored Record is not replaced and the response body is the fetched Record,
  new display field included. The part_001 worker and the playback worker (with track ids
  present) put nothing; goodreads-worker.js issues one put, of the stored data as it was
  under a new timestamp, and answers the fetched Record when that put succeeds.
\<close>

theorem cosmetic_change_keeps_store_and_answers_fresh:
  "meth \<noteq> ''OPTIONS'' \<Longrightarrow>
   (kv_get env = Returns (Some c) \<and>
    \<not> (timestamp c \<noteq> 0 \<and> clock1 env - timestamp c < 3600000) \<and>
    feed env = Returns bks \<and> data c = Some old \<and> current old = Some ob \<and>
    current bks = Some nb \<and> title nb = title ob \<and> author nb = author ob
      \<longrightarrow> puts (goodreads_fetch meth env)
            = [Put \<lparr>data = Some old, timestamp = clock2 env\<rparr> None] \<and>
          (kv_put env = Returns () \<longrightarrow> response (goodreads_fetch meth env) = Ok (Some bks)) \<and>
          part001_fetch meth env = \<lparr>calls = [Feed], puts = [], response = Ok (Some bks)\<rparr>) \<and>
   (kv_get senv = Returns (Some d) \<and>
    \<not> (timestamp d \<noteq> 0 \<and> clock1 senv - timestamp d < 30000) \<and>
    yields senv (Some t) \<and> data d = Some s \<and> truthy (trackId t) \<and>
    trackId t = trackId s \<and> isPlaying t = isPlaying s
      \<longrightarrow> puts (spotify_fetch meth senv) = [] \<and>
          response (spotify_fetch meth senv) = Ok (Some t))"
proof (intro conjI impI)
  assume m: "meth \<noteq> ''OPTIONS''"
  { assume h: "kv_get env = Returns (Some c) \<and>
      \<not> (timestamp c \<noteq> 0 \<and> clock1 env - timestamp c < 3600000) \<and>
      feed env = Returns bks \<and> data c = Some old \<and> current old = Some ob \<and>
      current bks = Some nb \<and> title nb = title ob \<and> author nb = author ob"
    with m show "puts (goodreads_fetch meth env)
        = [Put \<lparr>data = Some old, timestamp = clock2 env\<rparr> None]"
      by (simp add: goodreads_fetch_unfold split: outcome.splits)
    from m h show "response (goodreads_fetch meth env) = Ok (Some bks)"
      if "kv_put env = Returns ()"
      using that by (auto simp: goodreads_fetch_unfold)
    from m h show "part001_fetch meth env = \<lparr>calls = [Feed], puts = [], response = Ok (Some bks)\<rparr>"
      by (simp add: part001_fetch_unfold) }
  { assume h: "kv_get senv = Returns (Some d) \<and>
      \<not> (timestamp d \<noteq> 0 \<and> clock1 senv - timestamp d < 30000) \<and>
      yields senv (Some t) \<and> data d = Some s \<and> truthy (trackId t) \<and>
      trackId t = trackId s \<and> isPlaying t = isPlaying s"
    with m show "puts (spotify_fetch meth senv) = []"
      by (auto simp: yields_def spotify_fetch_unfold split: outcome.splits option.splits)
    from m h show "response (spotify_fetch meth senv) = Ok (Some t)"
      by (auto simp: yields_def spotify_fetch_unfold split: outcome.splits option.splits) }
qed

theorem cosmetic_change_keeps_store_and_answers_fresh_witness:
  "puts (goodreads_fetch ''GET''
     (goodreads_env (Some \<lparr>data = Some (shelf (Some dune)), timestamp = 1000\<rparr>) 4000000
        (Returns (shelf (Some dune_new_cover)))))
     = [Put \<lparr>data = Some (shelf (Some dune)), timestamp = 4000005\<rparr> None] \<and>
   response (goodreads_fetch ''GET''
     (goodreads_env (Some \<lparr>data = Some (shelf (Some dune)), timestamp = 1000\<rparr>) 4000000
        (Returns (shelf (Some dune_new_cover)))))
     = Ok (Some (shelf (Some dune_new_cover))) \<and>
   part001_fetch ''GET''
     (goodreads_env (Some \<lparr>data = Some (shelf (Some dune)), timestamp = 1000\<rparr>) 4000000
        (Returns (shelf (Some dune_new_cover))))
     = \<lparr>calls = [Feed], puts = [], response = Ok (Some (shelf (Some dune_new_cover)))\<rparr> \<and>
   puts (spotify_fetch ''GET''
     (spotify_env (Some \<lparr>data = Some song, timestamp = 1000, lastRun = 1000\<rparr>) 100000
        (Returns ()) (Returns (Some (song\<lparr>albumArt := ''art-2.jpg''\<rparr>))) (Returns None)))
     = [] \<and>
   response (spotify_fetch ''GET''
     (spotify_env (Some \<lparr>data = Some song, timestamp = 1000, lastRun = 1000\<rparr>) 100000
        (Returns ()) (Returns (Some (song\<lparr>albumArt := ''art-2.jpg''\<rparr>))) (Returns None)))
     = Ok (Some (song\<lparr>albumArt := ''art-2.jpg''\<rparr>))"
  using cosmetic_change_keeps_store_and_answers_fresh
    [where meth = "''GET''"
     and env = "goodreads_env (Some \<lparr>data = Some (shelf (Some dune)), timestamp = 1000\<rparr>)
        4000000 (Returns (shelf (Some dune_new_cover)))"
     and c = "\<lparr>data = Some (shelf (Some dune)), timestamp = 1000\<rparr>"
     and bks = "shelf (Some dune_new_cover)" and old = "shelf (Some dune)"
     and ob = dune and nb = dune_new_cover
     and senv = "spotify_env (Some \<lparr>data = Some song, timestamp = 1000, lastRun = 1000\<rparr>)
        100000 (Returns ()) (Returns (Some (song\<lparr>albumArt := ''art-2.jpg''\<rparr>))) (Returns None)"
     and d = "\<lparr>data = Some song, timestamp = 1000, lastRun = 1000\<rparr>"
     and t = "song\<lparr>albumArt := ''art-2.jpg''\<rparr>" and s = song]
  by (simp add: yields_def examples_unfold)

subsection \<open>The freshness window\<close>

text \<open>
  C7. For every on-demand request that finds a cache entry with a timestamp (a stored
  reading of \<^verbatim>\<open>Date.now()\<close>; the number \<open>0\<close> is falsy in the source's test and reads
  as no timestamp) and \<open>now - timestamp\<close> below the freshness window, 3600000 ms for the
  reading-list workers and 30000 ms for the playback worker, the handler answers the
  stored Record at once: no upstream call, no put.
\<close>

theorem fresh_entry_is_served_without_fetch:
  "meth \<noteq> ''OPTIONS'' \<Longrightarrow>
   (kv_get genv = Returns (Some c) \<and> timestamp c \<noteq> 0 \<and> clock1 genv - timestamp c < 3600000
      \<longrightarrow> goodreads_fetch meth genv = \<lparr>calls = [], puts = [], response = Ok (data c)\<rparr>) \<and>
   (kv_get penv = Returns (Some c') \<and> timestamp c' \<noteq> 0 \<and>
    clock1 penv - timestamp c' < 3600000
      \<longrightarrow> part001_fetch meth penv = \<lparr>calls = [], puts = [], response = Ok (data c')\<rparr>) \<and>
   (kv_get senv = Returns (Some d) \<and> timestamp d \<noteq> 0 \<and> clock1 senv - timestamp d < 30000
      \<longrightarrow> spotify_fetch meth senv = \<lparr>calls = [], puts = [], response = Ok (data d)\<rparr>)"
proof (intro conjI impI)
  assume m: "meth \<noteq> ''OPTIONS''"
  { assume "kv_get genv = Returns (Some c) \<and> timestamp c \<noteq> 0 \<and>
      clock1 genv - timestamp c < 3600000"
    with m show "goodreads_fetch meth genv = \<lparr>calls = [], puts = [], response = Ok (data c)\<rparr>"
      by (simp add: goodreads_fetch_unfold) }
  { assume "kv_get penv = Returns (Some c') \<and> timestamp c' \<noteq> 0 \<and>
      clock1 penv - timestamp c' < 3600000"
    with m show "part001_fetch meth penv = \<lparr>calls = [], puts = [], response = Ok (data c')\<rparr>"
      by (simp add: part001_fetch_unfold) }
  { assume "kv_get senv = Returns (Some d) \<and> timestamp d \<noteq> 0 \<and>
      clock1 senv - timestamp d < 30000"
    with m show "spotify_fetch meth senv = \<lparr>calls = [], puts = [], response = Ok (data d)\<rparr>"
      by (simp add: spotify_fetch_unfold) }
qed

theorem fresh_entry_is_served_without_fetch_witness:
  "goodreads_fetch ''GET''
     (goodreads_env (Some \<lparr>data = Some (shelf (Some dune)), timestamp = 1000\<rparr>) 3600999
        (Returns (shelf None)))
     = \<lparr>calls = [], puts = [], response = Ok (Some (shelf (Some dune)))\<rparr> \<and>
   part001_fetch ''GET''
     (goodreads_env (Some \<lparr>data = Some (shelf (Some dune)), timestamp = 1000\<rparr>) 3600999
        (Returns (shelf None)))
     = \<lparr>calls = [], puts = [], response = Ok (Some (shelf (Some dune)))\<rparr> \<and>
   spotify_fetch ''GET''
     (spotify_env (Some \<lparr>data = Some song, timestamp = 1000, lastRun = 1000\<rparr>) 30999
        (Throws ''down'') (Returns None) (Returns None))
     = \<lparr>calls = [], puts = [], response = Ok (Some song)\<rparr>"
  using fresh_entry_is_served_without_fetch
    [where meth = "''GET''"
     and genv = "goodreads_env (Some \<lparr>data = Some (shelf (Some dune)), timestamp = 1000\<rparr>)
        3600999 (Returns (shelf None))"
     and c = "\<lparr>data = Some (shelf (Some dune)), timestamp = 1000\<rparr>"
     and penv = "goodreads_env (Some \<lparr>data = Some (shelf (Some dune)), timestamp = 1000\<rparr>)
        3600999 (Returns (shelf None))"
     and c' = "\<lparr>data = Some (shelf (Some dune)), timestamp = 1000\<rparr>"
     and senv = "spotify_env (Some \<lparr>data = Some song, timestamp = 1000, lastRun = 1000\<rparr>)
        30999 (Throws ''down'') (Returns None) (Returns None)"
     and d = "\<lparr>data = Some song, timestamp = 1000, lastRun = 1000\<rparr>"]
  by (simp add: examples_unfold)

subsection \<open>Errors on the timer path\<close>

text \<open>
  Where a failed upstream call ends the tick without a put. In goodreads-worker.js a
  rejected request and a response whose status is not ok both make
  \<^verbatim>\<open>fetchGoodreadsRSS\<close> throw, and the timer handler returns from its inner
  \<^verbatim>\<open>catch\<close>. In the playback worker a throwing token request reaches the outer
  \<^verbatim>\<open>catch\<close> and a throwing query the inner one.
\<close>

lemma goodreads_bad_status_throws:
  "\<not> response_ok status \<Longrightarrow>
   goodreads_feed (Responds status items)
     = Throws (''Goodreads RSS returned '' @ decimal status)"
  by (simp add: goodreads_feed_def fetchGoodreadsRSS_def)

lemma goodreads_failed_feed_puts_nothing:
  "feed env = Throws m \<Longrightarrow> puts (goodreads_scheduled env) = []"
  by (simp add: goodreads_scheduled_unfold split: outcome.splits)

lemma spotify_failed_call_puts_nothing:
  assumes "token env = Throws m \<or> nowPlaying env = Throws m \<or>
           (nowPlaying env = Returns None \<and> recentlyPlayed env = Throws m)"
  shows "puts (spotify_scheduled env) = []"
  using assms by (auto simp: spotify_scheduled_unfold split: outcome.splits)

text \<open>
  C8. For every timer tick any error ends the tick: on a fetch failure nothing is written
  to the store, and no exception leaves the invocation. The timer handler of part_001
  breaks the first half. It does not read the status of the response, so an answer with
  status 503 and an error page for a body is parsed like a feed: no item gives
  \<^verbatim>\<open>{ current: null }\<close>, which differs from the stored book, and the handler puts it
  over the stored book, 30 minutes after that was written. goodreads-worker.js throws on
  the same answer and puts nothing.
\<close>

theorem bad_status_tick_replaces_stored_book:
  "part001_feed (Responds 503 []) = Returns \<lparr>current = None, previous = None\<rparr> \<and>
   puts (part001_scheduled
     (goodreads_env (Some \<lparr>data = Some (shelf (Some dune)), timestamp = 1000\<rparr>) 1801000
        (part001_feed (Responds 503 []))))
     = [Put \<lparr>data = Some \<lparr>current = None, previous = None\<rparr>, timestamp = 1801005\<rparr>
          None] \<and>
   goodreads_feed (Responds 503 []) = Throws ''Goodreads RSS returned 503'' \<and>
   puts (goodreads_scheduled
     (goodreads_env (Some \<lparr>data = Some (shelf (Some dune)), timestamp = 1000\<rparr>) 1801000
        (goodreads_feed (Responds 503 [])))) = []"
  by (simp add: part001_feed_def part001_parseGoodreadsRSS_def goodreads_feed_def
      fetchGoodreadsRSS_def response_ok_def decimal.simps part001_scheduled_unfold
      goodreads_scheduled_unfold examples_unfold)

subsection \<open>The timestamp refresh of goodreads-worker.js\<close>

text \<open>
  C9. In the on-demand handler of goodreads-worker.js, whenever a stale cache entry
  exists and the fetch succeeds with an unchanged book (same title and author), the
  handler issues a put whose data is exactly the stored data, under the new timestamp:
  the fetched display fields are not stored.
\<close>

theorem unchanged_book_puts_stored_data_back:
  "meth \<noteq> ''OPTIONS'' \<Longrightarrow> kv_get env = Returns (Some c) \<Longrightarrow>
   \<not> cacheValid (Some c) (clock1 env) \<Longrightarrow> feed env = Returns bks \<Longrightarrow>
   data c = Some old \<Longrightarrow> current old = Some ob \<Longrightarrow> current bks = Some nb \<Longrightarrow>
   title nb = title ob \<Longrightarrow> author nb = author ob \<Longrightarrow>
   puts (goodreads_fetch meth env) = [Put \<lparr>data = data c, timestamp = clock2 env\<rparr> None]"
  by (simp add: goodreads_fetch_def goodreads_fetch_try_def catch_500_def entry_data_def
      hasBookChanged_def Let_def split: outcome.splits)

theorem unchanged_book_puts_stored_data_back_witness:
  "\<not> cacheValid (Some \<lparr>data = Some (shelf (Some dune)), timestamp = 1000\<rparr>) 3601000 \<and>
   puts (goodreads_fetch ''GET''
     (goodreads_env (Some \<lparr>data = Some (shelf (Some dune)), timestamp = 1000\<rparr>) 3601000
        (Returns (shelf (Some dune_new_cover)))))
     = [Put \<lparr>data = Some (shelf (Some dune)), timestamp = 3601005\<rparr> None]"
  using unchanged_book_puts_stored_data_back
    [where meth = "''GET''"
     and env = "goodreads_env (Some \<lparr>data = Some (shelf (Some dune)), timestamp = 1000\<rparr>)
        3601000 (Returns (shelf (Some dune_new_cover)))"
     and c = "\<lparr>data = Some (shelf (Some dune)), timestamp = 1000\<rparr>"
     and bks = "shelf (Some dune_new_cover)" and old = "shelf (Some dune)"
     and ob = dune and nb = dune_new_cover]
  by (simp add: cacheValid_def CACHE_TTL_MS_def examples_unfold)

subsection \<open>On-demand writes and the timer\<close>

text \<open>
  C10. In the playback worker every entry that the on-demand handler puts has its
  \<open>lastRun\<close> equal to its \<open>timestamp\<close>, the clock reading at the put. The timer handler
  makes no upstream call and no put whenever the entry it reads has a \<open>lastRun\<close> (the
  number \<open>0\<close> is falsy in the source's test and reads as none) with
  \<open>now - lastRun < 120000\<close> ms. So after an on-demand put, every tick that reads that
  entry less than 120000 ms after the put is a no-op.
\<close>

theorem on_demand_put_postpones_tick:
  "(\<forall>e ttl. Put e ttl \<in> set (puts (spotify_fetch meth env))
      \<longrightarrow> lastRun e = timestamp e \<and> timestamp e = clock2 env) \<and>
   (kv_get tick = Returns (Some d) \<and> lastRun d \<noteq> 0 \<and> clock1 tick - lastRun d < 120000
      \<longrightarrow> calls (spotify_scheduled tick) = [] \<and> puts (spotify_scheduled tick) = []) \<and>
   (Put w ttl' \<in> set (puts (spotify_fetch meth env)) \<and> clock2 env \<noteq> 0 \<and>
    kv_get next_tick = Returns (Some w) \<and> clock1 next_tick - clock2 env < 120000
      \<longrightarrow> calls (spotify_scheduled next_tick) = [] \<and> puts (spotify_scheduled next_tick) = [])"
proof -
  have w: "lastRun x = timestamp x \<and> timestamp x = clock2 env"
    if "Put x t \<in> set (puts (spotify_fetch meth env))" for x t
    using that
    by (auto simp: spotify_fetch_def spotify_fetch_try_def catch_500_def preflight_def Let_def
        split: if_splits outcome.splits)
  have s: "calls (spotify_scheduled tk) = [] \<and> puts (spotify_scheduled tk) = []"
    if "kv_get tk = Returns (Some x)" "lastRun x \<noteq> 0" "clock1 tk - lastRun x < 120000"
    for x tk
    using too_soon_tick_is_noop [OF that] by simp
  show ?thesis
  proof (intro conjI allI impI)
    fix e ttl
    assume "Put e ttl \<in> set (puts (spotify_fetch meth env))"
    then show "lastRun e = timestamp e" "timestamp e = clock2 env"
      using w by blast+
  next
    assume "kv_get tick = Returns (Some d) \<and> lastRun d \<noteq> 0 \<and> clock1 tick - lastRun d < 120000"
    then show "calls (spotify_scheduled tick) = []" "puts (spotify_scheduled tick) = []"
      using s [of tick d] by simp_all
  next
    assume h: "Put w ttl' \<in> set (puts (spotify_fetch meth env)) \<and> clock2 env \<noteq> 0 \<and>
      kv_get next_tick = Returns (Some w) \<and> clock1 next_tick - clock2 env < 120000"
    then have "lastRun w = clock2 env" using w [of w ttl'] by simp
    with h show "calls (spotify_scheduled next_tick) = []" "puts (spotify_scheduled next_tick) = []"
      using s [of next_tick w] by simp_all
  qed
qed

theorem on_demand_put_postpones_tick_witness:
  "puts (spotify_fetch ''GET''
     (spotify_env None 1000 (Returns ()) (Returns (Some song)) (Returns None)))
     = [Put \<lparr>data = Some song, timestamp = 1005, lastRun = 1005\<rparr> (Some 300)] \<and>
   calls (spotify_scheduled
     (spotify_env (Some \<lparr>data = Some song, timestamp = 1005, lastRun = 1005\<rparr>) 121004
        (Returns ()) (Returns None) (Returns None))) = [] \<and>
   puts (spotify_scheduled
     (spotify_env (Some \<lparr>data = Some song, timestamp = 1005, lastRun = 1005\<rparr>) 121004
        (Returns ()) (Returns None) (Returns None))) = []"
  using on_demand_put_postpones_tick
    [where meth = "''GET''"
     and env = "spotify_env None 1000 (Returns ()) (Returns (Some song)) (Returns None)"
     and tick = "spotify_env (Some \<lparr>data = Some song, timestamp = 1005, lastRun = 1005\<rparr>)
        121004 (Returns ()) (Returns None) (Returns None)"
     and d = "\<lparr>data = Some song, timestamp = 1005, lastRun = 1005\<rparr>"
     and w = "\<lparr>data = Some song, timestamp = 1005, lastRun = 1005\<rparr>"
     and ttl' = "Some 300"
     and next_tick = "spotify_env (Some \<lparr>data = Some song, timestamp = 1005, lastRun = 1005\<rparr>)
        121004 (Returns ()) (Returns None) (Returns None)"]
  by (simp add: spotify_fetch_unfold examples_unfold)

end
